theory Spec2Isabelle
  imports Main
begin

section \<open>Insertion-ordered dictionaries\<close>

text \<open>
  A Python \<open>dict\<close> (and \<open>OrderedDict\<close>) iterates its keys in insertion order; assigning to a
  key that is already present replaces the value where it stands, assigning to a new key
  appends it. The model is an association list handled only through \<open>setitem\<close>.
\<close>

type_synonym 'v pydict = "(string \<times> 'v) list"

primrec setitem :: "string \<Rightarrow> 'v \<Rightarrow> 'v pydict \<Rightarrow> 'v pydict" where
  "setitem k v [] = [(k, v)]"
| "setitem k v (p # ps) = (if fst p = k then (k, v) # ps else p # setitem k v ps)"

text \<open>\<open>d.update(items)\<close>: one assignment per item, in the order of the items.\<close>

fun dict_update :: "'v pydict \<Rightarrow> (string \<times> 'v) list \<Rightarrow> 'v pydict" where
  "dict_update d [] = d"
| "dict_update d ((k, v) # rest) = dict_update (setitem k v d) rest"

text \<open>The keys of a sequence of pairs in the order of their first definition.\<close>

fun first_defined :: "string list \<Rightarrow> string list \<Rightarrow> string list" where
  "first_defined seen [] = []"
| "first_defined seen (k # ks) =
     (if k \<in> set seen then first_defined seen ks else k # first_defined (seen @ [k]) ks)"

text \<open>A lookup environment (\<open>Mapping[str, Optional[str]]\<close>): only ever read by key.\<close>

type_synonym env = "string \<rightharpoonup> string option"


section \<open>Interpolation atoms\<close>

text \<open>
  Modelled from the spec: the atoms of \<open>dotenv/variables.py\<close> and their \<open>resolve\<close> method;
  that module is not among the sources. A literal contributes its text. A reference looks
  its name up: a present string is contributed, a present but absent value gives the empty
  string, and a name that is not in the environment gives the default when the reference
  carries one and the empty string otherwise.
\<close>

datatype atom = Literal string | Variable string "string option"

fun resolve :: "atom \<Rightarrow> env \<Rightarrow> string" where
  "resolve (Literal text) e = text"
| "resolve (Variable name dflt) e =
     (case e name of
        Some (Some v) \<Rightarrow> v
      | Some None \<Rightarrow> ''''
      | None \<Rightarrow> (case dflt of Some d \<Rightarrow> d | None \<Rightarrow> ''''))"

text \<open>
  Modelled from the spec: the atom tokenizer \<open>parse_variables\<close> of \<open>dotenv/variables.py\<close>,
  which is not among the sources. References are written \<open>${NAME}\<close> or \<open>${NAME:-default}\<close>;
  all other text is literal, and the atoms cover the value without gaps. The functions of
  \<open>main.py\<close> below take the tokenizer as a parameter; this one instantiates it.
\<close>

definition match_reference :: "string \<Rightarrow> (atom \<times> string) option" where
  "match_reference s =
     (case s of
        c1 # c2 # rest \<Rightarrow>
          if c1 = CHR ''$'' \<and> c2 = CHR ''{'' then
            (let inner = takeWhile (\<lambda>c. c \<noteq> CHR ''}'') rest;
                 after = dropWhile (\<lambda>c. c \<noteq> CHR ''}'') rest;
                 name = takeWhile (\<lambda>c. c \<noteq> CHR '':'') inner;
                 tail = dropWhile (\<lambda>c. c \<noteq> CHR '':'') inner
             in if after = [] then None
                else (case tail of
                        [] \<Rightarrow> Some (Variable name None, tl after)
                      | _ # [] \<Rightarrow> None
                      | _ # d # dflt \<Rightarrow>
                          if d = CHR ''-'' then Some (Variable name (Some dflt), tl after)
                          else None))
          else None
      | _ \<Rightarrow> None)"

definition flush_literal :: "string \<Rightarrow> atom list" where
  "flush_literal text = (if text = [] then [] else [Literal text])"

function parse_variables_from :: "string \<Rightarrow> string \<Rightarrow> atom list" where
  "parse_variables_from text [] = flush_literal text"
| "parse_variables_from text (c # cs) =
     (case match_reference (c # cs) of
        Some (a, rest) \<Rightarrow> flush_literal text @ a # parse_variables_from [] rest
      | None \<Rightarrow> parse_variables_from (text @ [c]) cs)"
  by pat_completeness auto
termination
proof (relation "measure (\<lambda>(text, s). length s)")
  show "wf (measure (\<lambda>(text, s). length s))" by simp
next
  fix lit :: string and c cs x2 x y
  assume "match_reference (c # cs) = Some x2" and "(x, y) = x2"
  then have m: "match_reference (c # cs) = Some (x, y)" by simp
  then obtain c2 rest where s: "cs = c2 # rest"
    and r: "y = tl (dropWhile (\<lambda>c. c \<noteq> CHR ''}'') rest)"
    by (auto simp: match_reference_def Let_def split: list.splits if_splits)
  have "length y \<le> length rest"
    unfolding r using length_dropWhile_le [of "\<lambda>c. c \<noteq> CHR ''}''" rest] by simp
  then show "(([], y), (lit, c # cs)) \<in> measure (\<lambda>(text, s). length s)"
    by (simp add: s)
next
  fix lit :: string and c cs
  show "((lit @ [c], cs), (lit, c # cs)) \<in> measure (\<lambda>(text, s). length s)" by simp
qed

definition parse_variables :: "string \<Rightarrow> atom list" where
  "parse_variables v = parse_variables_from [] v"


section \<open>The merge engine\<close>

text \<open>
  \<open>resolve_variables\<close> of \<open>main.py\<close>. The loop keeps \<open>new_values\<close>; for a present value it
  builds \<open>env\<close> afresh from \<open>base_env\<close> and \<open>new_values\<close> (the later \<open>update\<close> wins), joins
  the resolved atoms and stores the result under the name.
\<close>

fun resolve_loop ::
  "(string \<Rightarrow> atom list) \<Rightarrow> bool \<Rightarrow> env \<Rightarrow> string option pydict \<Rightarrow>
   (string \<times> string option) list \<Rightarrow> string option pydict" where
  "resolve_loop pv ov benv new_values [] = new_values"
| "resolve_loop pv ov benv new_values ((name, v) # rest) =
     (let result =
        (case v of
           None \<Rightarrow> None
         | Some text \<Rightarrow>
             (let atoms = pv text;
                  e = (if ov then benv ++ map_of new_values else map_of new_values ++ benv)
              in Some (concat (map (\<lambda>a. resolve a e) atoms))))
      in resolve_loop pv ov benv (setitem name result new_values) rest)"

definition resolve_variables ::
  "(string \<Rightarrow> atom list) \<Rightarrow> (string \<times> string option) list \<Rightarrow> bool \<Rightarrow> env \<Rightarrow>
   string option pydict" where
  "resolve_variables pv values ov benv = resolve_loop pv ov benv [] values"


section \<open>Bindings and the binding stream\<close>

text \<open>
  Modelled from the spec: the \<open>Binding\<close> and \<open>Original\<close> records that \<open>parse_stream\<close> of
  \<open>dotenv/parser.py\<close> yields; that module is not among the sources. A binding carries the
  key and the value (each possibly absent), the original text of the line with the number
  of its first line, and an error mark.
\<close>

record original =
  string :: string
  line :: nat

record binding =
  key :: "string option"
  "value" :: "string option"
  original :: original
  error :: bool


section \<open>The world: files, streams, the ambient environment, the log\<close>

text \<open>
  Files hold the text that Python's text streams read and write (encodings and newline
  translation are below this model; \<open>encoding\<close> is carried but not interpreted). A path
  names a regular file, a directory, or nothing. An open caller-supplied stream is known
  by an identity and holds its unread remainder. \<open>io_ops\<close> lists the operations performed
  on files and streams, in order; \<open>logged\<close> is what was handed to the logger.
\<close>

datatype node = File string | Dir

datatype log_msg =
    CouldNotParse nat
  | ConfigFileNotFound string
  | CantDeleteFrom string
  | KeyNotRemoved string string

datatype io_op =
    Create string
  | MkTemp string
  | OpenRead string
  | ReadStream nat
  | Unlink string
  | Move string string

record world =
  files :: "string \<rightharpoonup> node"
  streams :: "nat \<Rightarrow> string"
  environ :: "string \<rightharpoonup> string"
  logged :: "log_msg list"
  io_ops :: "io_op list"

datatype error =
    ValueError string
  | UnboundLocalError string
  | AssertionError
  | Raised string

definition isfile :: "world \<Rightarrow> string \<Rightarrow> bool" where
  "isfile w p = (case files w p of Some (File c) \<Rightarrow> True | _ \<Rightarrow> False)"

definition path_exists :: "world \<Rightarrow> string \<Rightarrow> bool" where
  "path_exists w p = (files w p \<noteq> None)"

definition read_file :: "world \<Rightarrow> string \<Rightarrow> string" where
  "read_file w p = (case files w p of Some (File c) \<Rightarrow> c | _ \<Rightarrow> '''')"

text \<open>
  \<open>with_warn_for_invalid_lines\<close>: passes every binding on and logs one warning for each
  binding marked as an error, with the line it starts at.
\<close>

definition with_warn_for_invalid_lines :: "binding list \<Rightarrow> log_msg list \<times> binding list" where
  "with_warn_for_invalid_lines mappings =
     (map (\<lambda>m. CouldNotParse (line (original m))) (filter error mappings), mappings)"


section \<open>The class DotEnv\<close>

record DotEnv =
  dotenv_path :: "string option"
  stream :: "nat option"
  dict' :: "string option pydict option"
  verbose :: bool
  encoding :: "string option"
  interpolate :: bool
  override :: bool
  base_env :: env

text \<open>The constructor: \<open>_dict\<close> starts as \<open>None\<close>.\<close>

definition new_DotEnv ::
  "string option \<Rightarrow> nat option \<Rightarrow> bool \<Rightarrow> string option \<Rightarrow> bool \<Rightarrow> bool \<Rightarrow> env \<Rightarrow> DotEnv" where
  "new_DotEnv path strm verb enc interp ov benv =
     \<lparr>dotenv_path = path, stream = strm, dict' = None, verbose = verb, encoding = enc,
      interpolate = interp, override = ov, base_env = benv\<rparr>"

text \<open>
  \<open>_get_stream\<close> followed by the read of the whole stream that the binding stream makes.
  The path is used when it is a non-empty string naming a regular file; else the stream,
  which is left exhausted; else an empty text, with an info record when verbose.
\<close>

definition get_stream :: "world \<Rightarrow> DotEnv \<Rightarrow> world \<times> string" where
  "get_stream w self =
     (if (case dotenv_path self of None \<Rightarrow> False | Some p \<Rightarrow> p \<noteq> [] \<and> isfile w p) then
        (case dotenv_path self of
           Some p \<Rightarrow> (w\<lparr>io_ops := io_ops w @ [OpenRead p]\<rparr>, read_file w p)
         | None \<Rightarrow> (w, ''''))
      else
        (case stream self of
           Some sid \<Rightarrow>
             (w\<lparr>streams := (streams w)(sid := ''''), io_ops := io_ops w @ [ReadStream sid]\<rparr>,
              streams w sid)
         | None \<Rightarrow>
             (if verbose self then
                w\<lparr>logged := logged w @
                   [ConfigFileNotFound
                      (case dotenv_path self of None \<Rightarrow> ''.env''
                       | Some p \<Rightarrow> if p = [] then ''.env'' else p)]\<rparr>
              else w,
              '''')))"

text \<open>\<open>DotEnv.parse\<close>: the pairs of the bindings that have a key, in stream order.\<close>

definition parse ::
  "(string \<Rightarrow> binding list) \<Rightarrow> world \<Rightarrow> DotEnv \<Rightarrow> world \<times> (string \<times> string option) list" where
  "parse ps w self =
     (let (w1, text) = get_stream w self;
          (warnings, mappings) = with_warn_for_invalid_lines (ps text)
      in (w1\<lparr>logged := logged w1 @ warnings\<rparr>,
          List.map_filter
            (\<lambda>m. case key m of None \<Rightarrow> None | Some k \<Rightarrow> Some (k, value m)) mappings))"

text \<open>
  \<open>DotEnv.update_dict\<close>. \<open>target_dict\<close> is \<open>_dict\<close> itself, or a new dictionary when
  \<open>_dict\<close> is \<open>None\<close>; \<open>self._dict or {}\<close> is \<open>_dict\<close> when that is present and non-empty
  and an empty dictionary otherwise. Both are the items of \<open>cached\<close>.
\<close>

definition cached :: "DotEnv \<Rightarrow> string option pydict" where
  "cached self = (case dict' self of Some d \<Rightarrow> d | None \<Rightarrow> [])"

definition update_dict ::
  "(string \<Rightarrow> atom list) \<Rightarrow> DotEnv \<Rightarrow> (string \<times> string option) list \<Rightarrow> DotEnv" where
  "update_dict pv self raw_values =
     (let target_dict = cached self;
          updated =
            (if interpolate self then
               (let benv = (if override self then base_env self ++ map_of (cached self)
                            else map_of (cached self) ++ base_env self)
                in dict_update target_dict
                     (resolve_variables pv raw_values (override self) benv))
             else dict_update target_dict raw_values)
      in self\<lparr>dict' := Some updated\<rparr>)"

text \<open>\<open>DotEnv.dict\<close>: the cached dictionary when it is present and non-empty.\<close>

definition dict ::
  "(string \<Rightarrow> binding list) \<Rightarrow> (string \<Rightarrow> atom list) \<Rightarrow> world \<Rightarrow> DotEnv \<Rightarrow>
   world \<times> DotEnv \<times> string option pydict" where
  "dict ps pv w self =
     (case dict' self of
        Some (p # d) \<Rightarrow> (w, self, p # d)
      | _ \<Rightarrow>
          (let (w1, raw_values) = parse ps w self;
               self1 = update_dict pv self raw_values
           in (w1, self1, cached self1)))"

text \<open>
  \<open>DotEnv.set_as_environment_variables\<close>: the loop over the items of \<open>self.dict()\<close>,
  writing into \<open>os.environ\<close>.
\<close>

fun set_environ_loop ::
  "bool \<Rightarrow> string option pydict \<Rightarrow> (string \<rightharpoonup> string) \<Rightarrow> (string \<rightharpoonup> string)" where
  "set_environ_loop ov [] e = e"
| "set_environ_loop ov ((k, v) # rest) e =
     (if e k \<noteq> None \<and> \<not> ov then set_environ_loop ov rest e
      else (case v of
              Some text \<Rightarrow> set_environ_loop ov rest (e(k \<mapsto> text))
            | None \<Rightarrow> set_environ_loop ov rest e))"

definition set_as_environment_variables ::
  "(string \<Rightarrow> binding list) \<Rightarrow> (string \<Rightarrow> atom list) \<Rightarrow> world \<Rightarrow> DotEnv \<Rightarrow>
   world \<times> DotEnv \<times> bool" where
  "set_as_environment_variables ps pv w self =
     (let (w1, self1, d) = dict ps pv w self
      in (w1\<lparr>environ := set_environ_loop (override self1) d (environ w1)\<rparr>, self1, True))"


section \<open>The rewrite transaction\<close>

text \<open>
  \<open>rewrite\<close> is a context manager; its body is the block under \<open>with rewrite(path)\<close>. The
  body sees the text of the source handle and nothing else of the world: it is a function
  from that text to what it wrote to \<open>dest\<close>, what it logged, and either the exception it
  raised or its result. \<open>tmp\<close> is the name that \<open>NamedTemporaryFile\<close> picks.

  When \<open>path\<close> is not a regular file it is opened for writing, which creates it empty; on
  a directory that open raises, and the handler then reads \<open>dest\<close> before it was bound.
\<close>

definition rewrite ::
  "world \<Rightarrow> string \<Rightarrow> string \<Rightarrow> (string \<Rightarrow> string \<times> log_msg list \<times> (error + 'a)) \<Rightarrow>
   world \<times> (error + 'a)" where
  "rewrite w path tmp body =
     (if \<not> isfile w path \<and> path_exists w path then (w, Inl (UnboundLocalError ''dest''))
      else
        (let w1 = (if \<not> isfile w path
                   then w\<lparr>files := (files w)(path \<mapsto> File ''''),
                          io_ops := io_ops w @ [Create path]\<rparr>
                   else w);
             w2 = w1\<lparr>files := (files w1)(tmp \<mapsto> File ''''),
                     io_ops := io_ops w1 @ [MkTemp tmp]\<rparr>;
             source = read_file w2 path;
             w3 = w2\<lparr>io_ops := io_ops w2 @ [OpenRead path]\<rparr>;
             (dest, warnings, outcome) = body source;
             w4 = w3\<lparr>files := (files w3)(tmp \<mapsto> File dest),
                     logged := logged w3 @ warnings\<rparr>
         in (case outcome of
               Inl e \<Rightarrow>
                 ((if isfile w4 tmp
                   then w4\<lparr>files := (files w4)(tmp := None),
                           io_ops := io_ops w4 @ [Unlink tmp]\<rparr>
                   else w4),
                  Inl e)
             | Inr x \<Rightarrow>
                 (w4\<lparr>files := ((files w4)(tmp := None))(path \<mapsto> File dest),
                     io_ops := io_ops w4 @ [Move tmp path]\<rparr>,
                  Inr x))))"


section \<open>The key mutators\<close>

definition newline :: string where
  "newline = [CHR 0x0A]"

text \<open>
  \<open>str.isalnum\<close>, on characters read as the code points 0 to 255: the string is not empty
  and every character is a letter or a digit or numeric.
\<close>

definition isalnum_char :: "char \<Rightarrow> bool" where
  "isalnum_char c =
     (let n = (of_char c :: nat)
      in (48 \<le> n \<and> n \<le> 57) \<or> (65 \<le> n \<and> n \<le> 90) \<or> (97 \<le> n \<and> n \<le> 122)
         \<or> n = 170 \<or> n = 178 \<or> n = 179 \<or> n = 181 \<or> n = 185 \<or> n = 186
         \<or> (188 \<le> n \<and> n \<le> 190) \<or> (192 \<le> n \<and> n \<le> 214) \<or> (216 \<le> n \<and> n \<le> 246)
         \<or> 248 \<le> n)"

definition isalnum :: "string \<Rightarrow> bool" where
  "isalnum s = (s \<noteq> [] \<and> list_all isalnum_char s)"

text \<open>\<open>value_to_set.replace("'", "\\'")\<close>: a backslash before every single quote.\<close>

definition escape_quotes :: "string \<Rightarrow> string" where
  "escape_quotes s = concat (map (\<lambda>c. if c = CHR 0x27 then [CHR 0x5C, CHR 0x27] else [c]) s)"

text \<open>
  The first part of \<open>set_key\<close> after the check of the quote mode: whether to quote, the
  value as written, and the line \<open>[export ]KEY=value\<close> with its newline.
\<close>

definition make_line_out :: "string \<Rightarrow> string \<Rightarrow> string \<Rightarrow> bool \<Rightarrow> string" where
  "make_line_out key_to_set value_to_set quote_mode export =
     (let quote = (quote_mode = ''always''
                   \<or> (quote_mode = ''auto'' \<and> \<not> isalnum value_to_set));
          value_out = (if quote then [CHR 0x27] @ escape_quotes value_to_set @ [CHR 0x27]
                       else value_to_set)
      in if export then ''export '' @ key_to_set @ ''='' @ value_out @ newline
         else key_to_set @ ''='' @ value_out @ newline)"

text \<open>The loop of \<open>set_key\<close> over the bindings, with \<open>dest\<close> and \<open>replaced\<close> as its state.\<close>

fun set_key_loop ::
  "string \<Rightarrow> string \<Rightarrow> binding list \<Rightarrow> string \<times> bool \<Rightarrow> string \<times> bool" where
  "set_key_loop key_to_set line_out [] (dest, replaced) = (dest, replaced)"
| "set_key_loop key_to_set line_out (mapping # rest) (dest, replaced) =
     (if key mapping = Some key_to_set
      then set_key_loop key_to_set line_out rest (dest @ line_out, True)
      else set_key_loop key_to_set line_out rest (dest @ string (original mapping), replaced))"

text \<open>
  The block under \<open>with rewrite(dotenv_path)\<close> in \<open>set_key\<close>: the loop, then the new line
  at the end when nothing was replaced.
\<close>

definition set_key_body ::
  "(string \<Rightarrow> binding list) \<Rightarrow> string \<Rightarrow> string \<Rightarrow> string \<Rightarrow>
   string \<times> log_msg list \<times> (error + unit)" where
  "set_key_body ps key_to_set line_out source =
     (let (warnings, mappings) = with_warn_for_invalid_lines (ps source);
          (dest, replaced) = set_key_loop key_to_set line_out mappings ('''', False)
      in ((if \<not> replaced then dest @ line_out else dest), warnings, Inr ()))"

definition set_key ::
  "(string \<Rightarrow> binding list) \<Rightarrow> world \<Rightarrow> string \<Rightarrow> string \<Rightarrow> string \<Rightarrow> string \<Rightarrow> string \<Rightarrow>
   bool \<Rightarrow> world \<times> (error + bool option \<times> string \<times> string)" where
  "set_key ps w tmp path key_to_set value_to_set quote_mode export =
     (if quote_mode \<notin> {''always'', ''auto'', ''never''}
      then (w, Inl (ValueError (''Unknown quote_mode: '' @ quote_mode)))
      else
        (let line_out = make_line_out key_to_set value_to_set quote_mode export
         in (case rewrite w path tmp (set_key_body ps key_to_set line_out) of
               (w1, Inl e) \<Rightarrow> (w1, Inl e)
             | (w1, Inr u) \<Rightarrow> (w1, Inr (Some True, key_to_set, value_to_set)))))"





section \<open>The chain loader\<close>

text \<open>
  An argument of \<open>chained_dotenv_values\<close> is a path, a stream, or \<open>None\<close>. The first
  \<open>DotEnv\<close> made becomes \<open>result\<close>; every argument is parsed by a \<open>DotEnv\<close> of its own and
  its pairs go through \<open>result.update_dict\<close>.
\<close>

datatype source = PathArg string | StreamArg nat

definition argument_DotEnv :: "source option \<Rightarrow> bool \<Rightarrow> bool \<Rightarrow> string option \<Rightarrow> env \<Rightarrow> DotEnv" where
  "argument_DotEnv argument verb interp enc benv =
     new_DotEnv
       (case argument of Some (PathArg p) \<Rightarrow> Some p | _ \<Rightarrow> None)
       (case argument of Some (StreamArg sid) \<Rightarrow> Some sid | _ \<Rightarrow> None)
       verb enc interp True benv"

fun chain_loop ::
  "(string \<Rightarrow> binding list) \<Rightarrow> (string \<Rightarrow> atom list) \<Rightarrow> bool \<Rightarrow> bool \<Rightarrow> string option \<Rightarrow> env \<Rightarrow>
   source option list \<Rightarrow> world \<times> DotEnv option \<Rightarrow> world \<times> DotEnv option" where
  "chain_loop ps pv verb interp enc benv [] (w, result) = (w, result)"
| "chain_loop ps pv verb interp enc benv (argument # rest) (w, result) =
     (let cur = argument_DotEnv argument verb interp enc benv;
          result1 = (case result of None \<Rightarrow> cur | Some r \<Rightarrow> r);
          (w1, raw_values) = parse ps w cur
      in chain_loop ps pv verb interp enc benv rest
           (w1, Some (update_dict pv result1 raw_values)))"

definition chain_error_message :: string where
  "chain_error_message =
     ''Filenames and/or stream arguments are required for chained loading. Use find_dotenv() to auto detect env-file''"

definition chained_dotenv_values ::
  "(string \<Rightarrow> binding list) \<Rightarrow> (string \<Rightarrow> atom list) \<Rightarrow> world \<Rightarrow> source option list \<Rightarrow>
   bool \<Rightarrow> bool \<Rightarrow> string option \<Rightarrow> env \<Rightarrow> world \<times> (error + string option pydict)" where
  "chained_dotenv_values ps pv w dotenv_paths_or_streams verb interp enc benv =
     (if dotenv_paths_or_streams = [] \<or> list_ex (\<lambda>arg. arg = None) dotenv_paths_or_streams
      then (w, Inl (ValueError chain_error_message))
      else
        (case chain_loop ps pv verb interp enc benv dotenv_paths_or_streams (w, None) of
           (w1, None) \<Rightarrow> (w1, Inl AssertionError)
         | (w1, Some result) \<Rightarrow>
             (let (w2, result1, d) = dict ps pv w1 result in (w2, Inr d))))"


section \<open>A binding stream\<close>

text \<open>
  Modelled from the spec: the binding stream \<open>parse_stream\<close> of \<open>dotenv/parser.py\<close>, which
  is not among the sources. The text is cut into lines, each keeping its newline. A blank
  line or a comment line (leading \<open>#\<close>) gives a binding without key; a line
  \<open>[export ]KEY=VALUE\<close> gives the key and the value, unquoted when it is in single or double
  quotes; a line \<open>KEY\<close> gives the key with an absent value; any other line is marked as an
  error and has no key. The original text of a binding is its line, unchanged. The
  functions of \<open>main.py\<close> take the binding stream as a parameter; this one instantiates it.
\<close>

fun split_lines_from :: "string \<Rightarrow> string \<Rightarrow> string list" where
  "split_lines_from cur [] = (if cur = [] then [] else [cur])"
| "split_lines_from cur (c # cs) =
     (if c = CHR 0x0A then (cur @ [c]) # split_lines_from [] cs
      else split_lines_from (cur @ [c]) cs)"

definition is_space :: "char \<Rightarrow> bool" where
  "is_space c = (c = CHR '' '' \<or> c = CHR 0x09 \<or> c = CHR 0x0A \<or> c = CHR 0x0D)"

definition strip :: "string \<Rightarrow> string" where
  "strip s = rev (dropWhile is_space (rev (dropWhile is_space s)))"

definition unquote :: "string \<Rightarrow> string" where
  "unquote s =
     (case s of
        q # rest \<Rightarrow>
          if rest \<noteq> [] \<and> last rest = q \<and> (q = CHR 0x27 \<or> q = CHR 0x22) then butlast rest
          else s
      | [] \<Rightarrow> s)"

definition drop_export :: "string \<Rightarrow> string" where
  "drop_export s = (if take 7 s = ''export '' then strip (drop 7 s) else s)"

definition parse_line :: "nat \<Rightarrow> string \<Rightarrow> binding" where
  "parse_line n text =
     (let here = \<lparr>string = text, line = n\<rparr>
      in (case strip text of
            [] \<Rightarrow> \<lparr>key = None, value = None, original = here, error = False\<rparr>
          | c # cs \<Rightarrow>
              if c = CHR ''#'' then \<lparr>key = None, value = None, original = here, error = False\<rparr>
              else
                (let stmt = drop_export (c # cs);
                     name = strip (takeWhile (\<lambda>x. x \<noteq> CHR ''='') stmt);
                     rest = dropWhile (\<lambda>x. x \<noteq> CHR ''='') stmt
                 in if name = [] \<or> list_ex (\<lambda>x. is_space x \<or> x = CHR ''#'') name
                    then \<lparr>key = None, value = None, original = here, error = True\<rparr>
                    else \<lparr>key = Some name,
                          value = (if rest = [] then None else Some (unquote (strip (tl rest)))),
                          original = here, error = False\<rparr>)))"

fun parse_lines :: "nat \<Rightarrow> string list \<Rightarrow> binding list" where
  "parse_lines n [] = []"
| "parse_lines n (l # ls) = parse_line n l # parse_lines (Suc n) ls"

definition parse_stream :: "string \<Rightarrow> binding list" where
  "parse_stream text = parse_lines 1 (split_lines_from [] text)"


section \<open>Example worlds\<close>

text \<open>Concrete inputs at which the properties below are evaluated.\<close>

definition world_with :: "(string \<rightharpoonup> node) \<Rightarrow> world" where
  "world_with fs =
     \<lparr>files = fs, streams = (\<lambda>sid. []), environ = Map.empty, logged = [], io_ops = []\<rparr>"

definition example_env_file :: string where
  "example_env_file = ''# settings\<newline>A=1\<newline>not a binding\<newline>''"


definition export_world :: world where
  "export_world =
     \<lparr>files = [''.env'' \<mapsto> File ''A=1\<newline>B\<newline>''], streams = (\<lambda>sid. []),
      environ = [''B'' \<mapsto> ''old''], logged = [], io_ops = []\<rparr>"

definition raising_body :: "string \<Rightarrow> string \<times> log_msg list \<times> (error + unit)" where
  "raising_body source = (source @ ''B'', [], Inl (Raised ''boom''))"


section \<open>Keys and lookups of the dictionary operations\<close>

lemma keys_setitem:
  "map fst (setitem k v d) = (if k \<in> set (map fst d) then map fst d else map fst d @ [k])"
  by (induction d) auto


lemma distinct_setitem: "distinct (map fst d) \<Longrightarrow> distinct (map fst (setitem k v d))"
  by (simp add: keys_setitem)



text \<open>\<open>first_defined\<close> lists every key once, and leaves out exactly the keys already seen.\<close>

lemma set_first_defined: "set (first_defined seen ks) = set ks - set seen"
  by (induction ks arbitrary: seen) auto

lemma distinct_first_defined: "distinct (first_defined seen ks)"
  by (induction ks arbitrary: seen) (auto simp: set_first_defined)

lemma first_defined_distinct:
  "distinct ks \<Longrightarrow> set ks \<inter> set seen = {} \<Longrightarrow> first_defined seen ks = ks"
  by (induction ks arbitrary: seen) auto

lemma keys_dict_update:
  "map fst (dict_update d items) = map fst d @ first_defined (map fst d) (map fst items)"
proof (induction d items rule: dict_update.induct)
  case (1 d)
  show ?case by simp
next
  case (2 d k v rest)
  then show ?case by (simp add: keys_setitem)
qed

lemma keys_resolve_loop:
  "map fst (resolve_loop pv ov benv new_values pairs) =
   map fst new_values @ first_defined (map fst new_values) (map fst pairs)"
proof (induction pairs arbitrary: new_values)
  case Nil
  show ?case by simp
next
  case (Cons p rest)
  obtain name v where p: "p = (name, v)" by (cases p)
  show ?case unfolding p by (simp add: Cons.IH keys_setitem Let_def)
qed

lemma keys_resolve_variables:
  "map fst (resolve_variables pv pairs ov benv) = first_defined [] (map fst pairs)"
  by (simp add: resolve_variables_def keys_resolve_loop)

text \<open>For pairs with distinct keys the order of the result is the order of the pairs.\<close>

lemma keys_resolve_variables_distinct:
  "distinct (map fst pairs) \<Longrightarrow> map fst (resolve_variables pv pairs ov benv) = map fst pairs"
  by (simp add: keys_resolve_variables first_defined_distinct)

lemma parse_variables_digit_1: "parse_variables ''1'' = [Literal ''1'']"
  by (simp add: parse_variables_def match_reference_def flush_literal_def)

lemma parse_variables_digit_2: "parse_variables ''2'' = [Literal ''2'']"
  by (simp add: parse_variables_def match_reference_def flush_literal_def)

lemma parse_variables_ref_A: "parse_variables ''${A}'' = [Variable ''A'' None]"
  by (simp add: parse_variables_def match_reference_def flush_literal_def)


section \<open>Precedence in the merge engine\<close>

text \<open>
  C1, as the code has it. With interpolation on, base environment \<open>{A: "1"}\<close> and file pairs
  \<open>[(A, "2")]\<close>, the mapping that \<open>resolve_variables\<close> returns and that \<open>update_dict\<close> stores
  maps \<open>A\<close> to \<open>"2"\<close> when \<open>override\<close> is true and also when it is false: the value of a pair
  is always stored under its name, and \<open>override\<close> only orders the lookups of references.
\<close>

theorem override_precedence_amended:
  assumes "pv ''2'' = [Literal ''2'']"
  shows "resolve_variables pv [(''A'', Some ''2'')] ov [''A'' \<mapsto> Some ''1''] = [(''A'', Some ''2'')]
         \<and> dict' (update_dict pv (new_DotEnv path strm verb enc True ov [''A'' \<mapsto> Some ''1''])
              [(''A'', Some ''2'')]) = Some [(''A'', Some ''2'')]"
  using assms
  by (simp add: update_dict_def cached_def new_DotEnv_def resolve_variables_def Let_def)

theorem override_precedence_amended_witness:
  "parse_variables ''2'' = [Literal ''2'']
   \<and> resolve_variables parse_variables [(''A'', Some ''2'')] False [''A'' \<mapsto> Some ''1'']
       = [(''A'', Some ''2'')]
   \<and> dict' (update_dict parse_variables
         (new_DotEnv (Some ''.env'') None False None True False [''A'' \<mapsto> Some ''1''])
         [(''A'', Some ''2'')]) = Some [(''A'', Some ''2'')]"
  using parse_variables_digit_2
    override_precedence_amended [where pv = parse_variables and ov = False
      and path = "Some ''.env''" and strm = None and verb = False and enc = None]
  by simp

text \<open>
  C1 as stated fails when \<open>override\<close> is false: the stored mapping does not map \<open>A\<close> to the
  base environment's \<open>"1"\<close>.
\<close>

theorem override_precedence_counterexample:
  "map_of (cached (update_dict parse_variables
      (new_DotEnv None None False None True False [''A'' \<mapsto> Some ''1''])
      [(''A'', Some ''2'')])) ''A'' \<noteq> Some (Some ''1'')"
  by (simp add: update_dict_def cached_def new_DotEnv_def resolve_variables_def
      parse_variables_def match_reference_def flush_literal_def)

text \<open>
  C3. Resolving \<open>[(A, "1"), (B, "${A}")]\<close> with \<open>override\<close> true gives \<open>B = "1"\<close> whatever the
  base environment holds: the earlier pair of the same sequence shadows it. With
  \<open>override\<close> false and a base environment in which \<open>A\<close> is \<open>"9"\<close>, it gives \<open>B = "9"\<close>.
\<close>

theorem self_reference_precedence:
  assumes "pv ''1'' = [Literal ''1'']" and "pv ''${A}'' = [Variable ''A'' None]"
  shows "resolve_variables pv [(''A'', Some ''1''), (''B'', Some ''${A}'')] True benv =
           [(''A'', Some ''1''), (''B'', Some ''1'')]
         \<and> (benv ''A'' = Some (Some ''9'') \<longrightarrow>
              resolve_variables pv [(''A'', Some ''1''), (''B'', Some ''${A}'')] False benv =
                [(''A'', Some ''1''), (''B'', Some ''9'')])"
  using assms by (simp add: resolve_variables_def map_add_def Let_def)

theorem self_reference_precedence_witness:
  "parse_variables ''1'' = [Literal ''1''] \<and> parse_variables ''${A}'' = [Variable ''A'' None]
   \<and> [''A'' \<mapsto> Some ''9''] ''A'' = Some (Some ''9'')
   \<and> resolve_variables parse_variables [(''A'', Some ''1''), (''B'', Some ''${A}'')] True
        [''A'' \<mapsto> Some ''9''] = [(''A'', Some ''1''), (''B'', Some ''1'')]
   \<and> resolve_variables parse_variables [(''A'', Some ''1''), (''B'', Some ''${A}'')] False
        [''A'' \<mapsto> Some ''9''] = [(''A'', Some ''1''), (''B'', Some ''9'')]"
  using parse_variables_digit_1 parse_variables_ref_A
    self_reference_precedence [where pv = parse_variables
      and benv = "[''A'' \<mapsto> Some ''9'']"]
  by simp


section \<open>Order of the resolved mapping\<close>




section \<open>The rewrite transaction: commit and abort\<close>

lemma rewrite_abort:
  assumes "files w path \<noteq> Some Dir" and "files w tmp = None" and "tmp \<noteq> path"
    and "body (read_file w path) = (dest, warnings, Inl e)"
  shows "rewrite w path tmp body =
      (w\<lparr>files := (if isfile w path then files w else (files w)(path \<mapsto> File '''')),
         logged := logged w @ warnings,
         io_ops := io_ops w @ (if isfile w path then [] else [Create path])
             @ [MkTemp tmp, OpenRead path, Unlink tmp]\<rparr>, Inl e)"
proof -
  consider (missing) "files w path = None" | (regular) c where "files w path = Some (File c)"
    using assms(1) by (cases "files w path") (auto, metis node.exhaust)
  then show ?thesis
  proof cases
    case missing
    with assms(2-4) show ?thesis
      by (simp add: rewrite_def isfile_def path_exists_def read_file_def Let_def fun_upd_idem)
  next
    case regular
    with assms(2-4) show ?thesis
      by (simp add: rewrite_def isfile_def path_exists_def read_file_def Let_def fun_upd_idem)
  qed
qed


text \<open>
  C2, as the code has it. When the body raises, the exception propagates, the temporary
  file no longer exists, and the target is what it was after the transaction's first step:
  unchanged when it was a regular file as the transaction began, an empty file when the
  path did not exist. Nothing else in the file system differs.
\<close>

theorem rewrite_failure_atomic:
  assumes "files w path \<noteq> Some Dir" and "files w tmp = None" and "tmp \<noteq> path"
    and "snd (snd (body (read_file w path))) = Inl e"
  shows "snd (rewrite w path tmp body) = Inl e
         \<and> files (fst (rewrite w path tmp body)) =
             (if isfile w path then files w else (files w)(path \<mapsto> File ''''))
         \<and> files (fst (rewrite w path tmp body)) tmp = None"
proof -
  obtain dest warnings where b: "body (read_file w path) = (dest, warnings, Inl e)"
    using assms(4) by (cases "body (read_file w path)") auto
  show ?thesis
    using rewrite_abort [where body = body, OF assms(1-3) b] assms(2,3) by simp
qed

theorem rewrite_failure_atomic_witness:
  "files (world_with [''.env'' \<mapsto> File ''A=1'']) ''.env'' \<noteq> Some Dir
   \<and> files (world_with [''.env'' \<mapsto> File ''A=1'']) ''tmp0'' = None
   \<and> snd (snd (raising_body (read_file (world_with [''.env'' \<mapsto> File ''A=1'']) ''.env'')))
       = Inl (Raised ''boom'')
   \<and> snd (rewrite (world_with [''.env'' \<mapsto> File ''A=1'']) ''.env'' ''tmp0'' raising_body)
       = Inl (Raised ''boom'')
   \<and> files (fst (rewrite (world_with [''.env'' \<mapsto> File ''A=1'']) ''.env'' ''tmp0'' raising_body))
       = files (world_with [''.env'' \<mapsto> File ''A=1''])"
  using rewrite_failure_atomic [where w = "world_with [''.env'' \<mapsto> File ''A=1'']"
      and path = "''.env''" and tmp = "''tmp0''" and e = "Raised ''boom''"
      and body = raising_body]
  by (simp add: world_with_def isfile_def raising_body_def)

text \<open>
  C2 as stated fails for a path that does not exist when the transaction begins: after the
  body has raised, the path names a file.
\<close>

theorem rewrite_failure_atomic_counterexample:
  "files (fst (rewrite (world_with Map.empty) ''.env'' ''tmp0'' raising_body)) ''.env''
   \<noteq> files (world_with Map.empty) ''.env''"
  by (simp add: rewrite_def world_with_def isfile_def path_exists_def read_file_def Let_def
      raising_body_def)

text \<open>
  C9. On a path that does not exist the transaction first creates the file empty. When the
  body then raises, only the temporary file is removed: the path is left as an empty file.
\<close>

theorem rewrite_creation_not_rolled_back:
  assumes "files w path = None" and "files w tmp = None" and "tmp \<noteq> path"
    and "snd (snd (body [])) = Inl e"
  shows "snd (rewrite w path tmp body) = Inl e
         \<and> files (fst (rewrite w path tmp body)) = (files w)(path \<mapsto> File [])
         \<and> io_ops (fst (rewrite w path tmp body)) =
             io_ops w @ [Create path, MkTemp tmp, OpenRead path, Unlink tmp]"
proof -
  from assms(1) have nodir: "files w path \<noteq> Some Dir" by simp
  from assms(1) have src: "read_file w path = []" by (simp add: read_file_def)
  from assms(1) have nofile: "\<not> isfile w path" by (simp add: isfile_def)
  obtain dest warnings where b: "body (read_file w path) = (dest, warnings, Inl e)"
    using assms(4) src by (cases "body []") auto
  show ?thesis
    using rewrite_abort [where body = body, OF nodir assms(2,3) b] nofile by simp
qed

theorem rewrite_creation_not_rolled_back_witness:
  "files (world_with Map.empty) ''.env'' = None
   \<and> snd (snd (raising_body [])) = Inl (Raised ''boom'')
   \<and> snd (rewrite (world_with Map.empty) ''.env'' ''tmp0'' raising_body) = Inl (Raised ''boom'')
   \<and> files (fst (rewrite (world_with Map.empty) ''.env'' ''tmp0'' raising_body)) ''.env''
       = Some (File [])
   \<and> files (fst (rewrite (world_with Map.empty) ''.env'' ''tmp0'' raising_body)) ''tmp0'' = None"
  using rewrite_creation_not_rolled_back [where w = "world_with Map.empty"
      and path = "''.env''" and tmp = "''tmp0''" and e = "Raised ''boom''"
      and body = raising_body]
  by (simp add: world_with_def raising_body_def)


section \<open>The key mutators\<close>

















section \<open>Configuration errors\<close>

text \<open>
  C8. \<open>set_key\<close> with a quote mode other than \<open>always\<close>, \<open>auto\<close> and \<open>never\<close> raises a
  \<open>ValueError\<close> and leaves the world as it was: no file was created, opened or changed.
  \<open>chained_dotenv_values\<close> with an empty sequence of sources, or with a sequence that holds
  \<open>None\<close>, raises a \<open>ValueError\<close> and leaves the world as it was: no file was opened and no
  stream was read.
\<close>

theorem configuration_errors_fail_fast:
  "(quote_mode \<notin> {''always'', ''auto'', ''never''} \<longrightarrow>
      set_key ps w tmp path k v quote_mode export =
        (w, Inl (ValueError (''Unknown quote_mode: '' @ quote_mode))))
   \<and> (sources = [] \<or> None \<in> set sources \<longrightarrow>
        chained_dotenv_values ps pv w sources verb interp enc benv =
          (w, Inl (ValueError chain_error_message)))"
  by (auto simp: set_key_def chained_dotenv_values_def list_ex_iff)

theorem configuration_errors_fail_fast_witness:
  "''sometimes'' \<notin> {''always'', ''auto'', ''never''}
   \<and> set_key parse_stream (world_with [''.env'' \<mapsto> File example_env_file]) ''tmp0'' ''.env''
        ''A'' ''2'' ''sometimes'' False
       = (world_with [''.env'' \<mapsto> File example_env_file],
          Inl (ValueError ''Unknown quote_mode: sometimes''))
   \<and> chained_dotenv_values parse_stream parse_variables
          (world_with [''.env'' \<mapsto> File example_env_file]) [] False True None Map.empty
       = (world_with [''.env'' \<mapsto> File example_env_file], Inl (ValueError chain_error_message))
   \<and> None \<in> set [Some (PathArg ''.env''), None]
   \<and> chained_dotenv_values parse_stream parse_variables
          (world_with [''.env'' \<mapsto> File example_env_file]) [Some (PathArg ''.env''), None]
          False True None Map.empty
       = (world_with [''.env'' \<mapsto> File example_env_file], Inl (ValueError chain_error_message))"
  using configuration_errors_fail_fast [where quote_mode = "''sometimes''" and ps = parse_stream
      and w = "world_with [''.env'' \<mapsto> File example_env_file]" and tmp = "''tmp0''"
      and path = "''.env''" and k = "''A''" and v = "''2''" and export = False
      and sources = "[]" and pv = parse_variables and verb = False and interp = True
      and enc = None and benv = Map.empty]
    configuration_errors_fail_fast [where quote_mode = "''sometimes''" and ps = parse_stream
      and w = "world_with [''.env'' \<mapsto> File example_env_file]"
      and sources = "[Some (PathArg ''.env''), None]" and pv = parse_variables and verb = False
      and interp = True and enc = None and benv = Map.empty]
  by simp


section \<open>Loading into the ambient environment\<close>

lemma set_environ_loop_untouched:
  "\<forall>v. (k, Some v) \<notin> set d \<Longrightarrow> set_environ_loop ov d e k = e k"
  by (induction ov d e rule: set_environ_loop.induct) (auto split: option.splits)

text \<open>
  The guard of the loop: a key that the ambient environment holds is left alone when
  \<open>override\<close> is false and overwritten when it is true.
\<close>

lemma set_environ_loop_guard:
  "set_environ_loop False [(''A'', Some ''2'')] [''A'' \<mapsto> ''1''] = [''A'' \<mapsto> ''1'']"
  "set_environ_loop True [(''A'', Some ''2'')] [''A'' \<mapsto> ''1''] = [''A'' \<mapsto> ''2'']"
  by simp_all

lemma absent_value_only:
  assumes "distinct (map fst d)" and "map_of d k = Some None"
  shows "(k, Some v) \<notin> set d"
proof
  assume "(k, Some v) \<in> set d"
  with assms(1) have "map_of d k = Some (Some v)" by (rule map_of_is_SomeI)
  with assms(2) show False by simp
qed

lemma environ_get_stream: "environ (fst (get_stream w self)) = environ w"
  by (simp add: get_stream_def split: option.splits)

lemma environ_parse: "environ (fst (parse ps w self)) = environ w"
proof -
  obtain w1 content where g: "get_stream w self = (w1, content)" by (cases "get_stream w self")
  with environ_get_stream [of w self] have "environ w1 = environ w" by simp
  then show ?thesis by (simp add: parse_def g Let_def split: prod.splits)
qed

lemma environ_dict: "environ (fst (dict ps pv w self)) = environ w"
proof -
  obtain w1 raw where p: "parse ps w self = (w1, raw)" by (cases "parse ps w self")
  with environ_parse [of ps w self] have "environ w1 = environ w" by simp
  then show ?thesis by (simp add: dict_def p Let_def split: option.splits list.splits)
qed

lemma distinct_dict_update:
  "distinct (map fst d) \<Longrightarrow> distinct (map fst (dict_update d items))"
  by (auto simp: keys_dict_update distinct_first_defined set_first_defined)

lemma distinct_update_dict:
  "distinct (map fst (cached self)) \<Longrightarrow> distinct (map fst (cached (update_dict pv self pairs)))"
  by (simp add: update_dict_def cached_def Let_def distinct_dict_update split: option.splits)

lemma distinct_dict:
  assumes "distinct (map fst (cached self))"
  shows "distinct (map fst (snd (snd (dict ps pv w self))))"
proof -
  obtain w1 raw where p: "parse ps w self = (w1, raw)" by (cases "parse ps w self")
  show ?thesis
  proof (cases "\<exists>q d. dict' self = Some (q # d)")
    case True
    then obtain q d where "dict' self = Some (q # d)" by blast
    with assms show ?thesis by (simp add: dict_def cached_def)
  next
    case False
    then have "dict ps pv w self = (w1, update_dict pv self raw, cached (update_dict pv self raw))"
      by (auto simp: dict_def p Let_def split: option.splits list.splits)
    with distinct_update_dict [OF assms, of pv raw] show ?thesis by simp
  qed
qed

lemma parse_stream_export: "parse_stream ''A=1\<newline>B\<newline>'' =
  [\<lparr>key = Some ''A'', value = Some ''1'',
     original = \<lparr>string = ''A=1\<newline>'', line = 1\<rparr>, error = False\<rparr>,
   \<lparr>key = Some ''B'', value = None,
     original = \<lparr>string = ''B\<newline>'', line = 2\<rparr>, error = False\<rparr>]"
  by (simp add: parse_stream_def parse_line_def strip_def is_space_def
      drop_export_def unquote_def Let_def)

lemma dict_export:
  "dict parse_stream parse_variables export_world
     (new_DotEnv (Some ''.env'') None False None True True Map.empty)
   = (export_world\<lparr>io_ops := [OpenRead ''.env'']\<rparr>,
      (new_DotEnv (Some ''.env'') None False None True True Map.empty)
        \<lparr>dict' := Some [(''A'', Some ''1''), (''B'', None)]\<rparr>,
      [(''A'', Some ''1''), (''B'', None)])"
  by (simp add: dict_def parse_def get_stream_def new_DotEnv_def export_world_def
      isfile_def read_file_def with_warn_for_invalid_lines_def parse_stream_export
      List.map_filter_simps update_dict_def cached_def resolve_variables_def
      parse_variables_digit_1 Let_def)

text \<open>
  C10. \<open>set_as_environment_variables\<close> returns \<open>True\<close>, and for every key that the mapping
  of \<open>self.dict()\<close> gives an absent value, the entry of the ambient environment is what it
  was before the call, whatever \<open>override\<close> is. The dictionary that the object holds has no
  key twice, as every Python dictionary.
\<close>

theorem absent_values_never_exported:
  assumes "distinct (map fst (cached self))"
  shows "snd (snd (set_as_environment_variables ps pv w self)) = True
         \<and> (\<forall>k. map_of (snd (snd (dict ps pv w self))) k = Some None \<longrightarrow>
               environ (fst (set_as_environment_variables ps pv w self)) k = environ w k)"
proof (intro conjI allI impI)
  show "snd (snd (set_as_environment_variables ps pv w self)) = True"
    by (simp add: set_as_environment_variables_def Let_def split: prod.splits)
next
  fix k
  assume absent: "map_of (snd (snd (dict ps pv w self))) k = Some None"
  obtain w1 self1 d where d: "dict ps pv w self = (w1, self1, d)"
    by (cases "dict ps pv w self") auto
  from distinct_dict [OF assms, of ps pv w] d have "distinct (map fst d)" by simp
  moreover from absent d have "map_of d k = Some None" by simp
  ultimately have "\<forall>v. (k, Some v) \<notin> set d" by (blast dest: absent_value_only)
  then have "set_environ_loop (override self1) d (environ w1) k = environ w1 k"
    by (rule set_environ_loop_untouched)
  moreover from environ_dict [of ps pv w self] d have "environ w1 = environ w" by simp
  ultimately show "environ (fst (set_as_environment_variables ps pv w self)) k = environ w k"
    by (simp add: set_as_environment_variables_def d)
qed

theorem absent_values_never_exported_witness:
  "distinct (map fst (cached (new_DotEnv (Some ''.env'') None False None True True Map.empty)))
   \<and> map_of (snd (snd (dict parse_stream parse_variables export_world
         (new_DotEnv (Some ''.env'') None False None True True Map.empty)))) ''B'' = Some None
   \<and> environ (fst (set_as_environment_variables parse_stream parse_variables export_world
         (new_DotEnv (Some ''.env'') None False None True True Map.empty))) ''B'' = Some ''old''
   \<and> snd (snd (set_as_environment_variables parse_stream parse_variables export_world
         (new_DotEnv (Some ''.env'') None False None True True Map.empty))) = True"
  using absent_values_never_exported [where ps = parse_stream and pv = parse_variables
      and w = export_world
      and self = "new_DotEnv (Some ''.env'') None False None True True Map.empty"]
  by (simp add: dict_export) (simp add: cached_def new_DotEnv_def export_world_def)


section \<open>Chain loading\<close>







end
